theory Spec2Isabelle
  imports Main "HOL-Library.Word"
begin

section \<open>Data model of trace_load_and_stats.c\<close>

type_synonym s32 = "32 word"
type_synonym u32 = "32 word"
type_synonym u64 = "64 word"

text \<open>
  The fields of \<^verbatim>\<open>struct bpf_map_info\<close> that the program reads. The C fields
  \<^verbatim>\<open>type\<close>, \<^verbatim>\<open>id\<close> and \<^verbatim>\<open>name\<close> are spelled \<open>map_type\<close>, \<open>map_id\<close> and
  \<open>map_name\<close> here.
\<close>

record bpf_map_info =
  map_type :: u32
  map_id :: u32
  key_size :: u32
  value_size :: u32
  max_entries :: u32
  map_name :: string

text \<open>\<^verbatim>\<open>struct bpf_map_info x = { 0 };\<close>\<close>

definition zero_info :: bpf_map_info where
  "zero_info = \<lparr>map_type = 0, map_id = 0, key_size = 0, value_size = 0,
     max_entries = 0, map_name = []\<rparr>"

text \<open>
  Modelled from the spec: the macros \<^verbatim>\<open>EXIT_OK\<close>, \<^verbatim>\<open>EXIT_FAIL\<close> and
  \<^verbatim>\<open>EXIT_FAIL_BPF\<close> are declared in \<^verbatim>\<open>../common/common_defines.h\<close>, which is not
  among the sources. The spec asks for three distinct exit codes: OK, generic failure
  and kernel/table-subsystem failure. The theorems below use only that the three
  values differ and that OK is 0.
\<close>

definition EXIT_OK :: int where "EXIT_OK = 0"
definition EXIT_FAIL :: int where "EXIT_FAIL = 1"
definition EXIT_FAIL_BPF :: int where "EXIT_FAIL_BPF = 40"

definition ENOENT :: int where "ENOENT = 2"

text \<open>
  Modelled from the spec: \<^verbatim>\<open>struct config\<close> is declared in
  \<^verbatim>\<open>../common/common_params.h\<close>, which is not among the sources. The spec's resolved
  configuration carries the artifact path, the only field this file reads; the verbosity
  flag is the global \<^verbatim>\<open>verbose\<close> of the same header and is a parameter of \<open>main\<close>.
\<close>

record config =
  filename :: string

text \<open>
  One constructor per \<^verbatim>\<open>fprintf(stderr, ...)\<close> call of the file, carrying the
  arguments of its format in the order the C passes them.
\<close>

datatype diag =
    Cannot_find_map string
  | Lookup_elem_failed s32
  | Cant_get_info int
  | Key_size_mismatch u32 u32
  | Value_size_mismatch u32 u32
  | Max_entries_mismatch u32 u32
  | Type_mismatch u32 u32
  | Loading_failed string int
  | No_program string int
  | Map_not_compatible

text \<open>The calls the program makes into libbpf, libc and the kernel, as a trace.\<close>

datatype event =
    Ev_open_file string
  | Ev_load nat
  | Ev_next_program nat
  | Ev_attach_tracepoint nat string string
  | Ev_close nat
  | Ev_find_map nat string
  | Ev_get_info int
  | Ev_setlocale
  | Ev_num_possible_cpus s32
  | Ev_get_next_key int "s32 option"
  | Ev_lookup_elem int s32 nat
  | Ev_sleep int

text \<open>
  The state outside the program: what was written to the two streams, the trace of calls,
  the probe objects currently open and the tracepoint links currently held.
\<close>

record world =
  stdout :: string
  stderr :: "diag list"
  events :: "event list"
  open_objs :: "nat list"
  links :: "(nat \<times> nat \<times> string \<times> string) list"

definition world0 :: world where
  "world0 = \<lparr>stdout = [], stderr = [], events = [], open_objs = [], links = []\<rparr>"

definition log_event :: "event \<Rightarrow> world \<Rightarrow> world" where
  "log_event e w = w\<lparr>events := events w @ [e]\<rparr>"

definition eprint :: "diag \<Rightarrow> world \<Rightarrow> world" where
  "eprint d w = w\<lparr>stderr := stderr w @ [d]\<rparr>"

definition print :: "string \<Rightarrow> world \<Rightarrow> world" where
  "print s w = w\<lparr>stdout := stdout w @ s\<rparr>"

text \<open>The number of calls made so far: the time at which the next call is answered.\<close>

definition now :: "world \<Rightarrow> nat" where
  "now w = length (events w)"

text \<open>
  The answers of libbpf, libc and the kernel. Handles of objects, programs, maps and
  links are numbers; \<open>None\<close> is the NULL or error pointer. The answers about the counter
  table and the CPU count depend on the time of the call, because the probe writes the
  table while the program reads it and a read may fail at one time and succeed at another.
  \<open>uninit_key\<close> and \<open>uninit_values\<close> are the contents of the stack slots that
  \<^verbatim>\<open>stats_print\<close> declares without initialising them.
\<close>

record env =
  bpf_object__open_file :: "string \<Rightarrow> nat option"
  bpf_object__load :: "nat \<Rightarrow> int"
  bpf_object__next_program :: "nat \<Rightarrow> nat option"
  bpf_program__attach_tracepoint :: "nat \<Rightarrow> string \<Rightarrow> string \<Rightarrow> nat option"
  bpf_object__find_map_by_name :: "nat \<Rightarrow> string \<Rightarrow> nat option"
  bpf_map__fd :: "nat \<Rightarrow> int"
  bpf_obj_get_info_by_fd :: "int \<Rightarrow> int + bpf_map_info"
  libbpf_num_possible_cpus :: "nat \<Rightarrow> s32"
  bpf_map_get_next_key :: "nat \<Rightarrow> int \<Rightarrow> s32 option \<Rightarrow> int + s32"
  bpf_map_lookup_elem :: "nat \<Rightarrow> int \<Rightarrow> s32 \<Rightarrow> u64 list option"
  if_indextoname :: "s32 \<Rightarrow> string option"
  uninit_key :: s32
  uninit_values :: "nat \<Rightarrow> u64"

section \<open>The schema validator\<close>

text \<open>
  \<^verbatim>\<open>__check_map_fd_info\<close>. The result is the returned code, the contents of
  \<^verbatim>\<open>*info\<close> after the call and the new world.
\<close>

definition check_map_fd_info ::
  "env \<Rightarrow> int \<Rightarrow> bpf_map_info \<Rightarrow> bpf_map_info \<Rightarrow> world \<Rightarrow> int \<times> bpf_map_info \<times> world" where
  "check_map_fd_info E map_fd info exp w =
     (if map_fd < 0 then (EXIT_FAIL, info, w)
      else
        (case bpf_obj_get_info_by_fd E map_fd of
           Inl errno \<Rightarrow>
             (EXIT_FAIL_BPF, info, eprint (Cant_get_info errno) (log_event (Ev_get_info map_fd) w))
         | Inr info' \<Rightarrow>
             (let w' = log_event (Ev_get_info map_fd) w in
              if key_size exp \<noteq> 0 \<and> key_size exp \<noteq> key_size info' then
                (EXIT_FAIL, info', eprint (Key_size_mismatch (key_size info') (key_size exp)) w')
              else if value_size exp \<noteq> 0 \<and> value_size exp \<noteq> value_size info' then
                (EXIT_FAIL, info',
                 eprint (Value_size_mismatch (value_size info') (value_size exp)) w')
              else if max_entries exp \<noteq> 0 \<and> max_entries exp \<noteq> max_entries info' then
                (EXIT_FAIL, info',
                 eprint (Max_entries_mismatch (max_entries info') (max_entries exp)) w')
              else if map_type exp \<noteq> 0 \<and> map_type exp \<noteq> map_type info' then
                (EXIT_FAIL, info', eprint (Type_mismatch (map_type info') (map_type exp)) w')
              else (0, info', w'))))"

text \<open>
  The validator as the specification words it: the four checked fields in their fixed
  order, and the first of them whose expectation is non-zero and differs from the live
  value.
\<close>

datatype checked_field = Key_size | Value_size | Max_entries | Map_type

definition check_order :: "checked_field list" where
  "check_order = [Key_size, Value_size, Max_entries, Map_type]"

fun field_of :: "checked_field \<Rightarrow> bpf_map_info \<Rightarrow> u32" where
  "field_of Key_size i = key_size i"
| "field_of Value_size i = value_size i"
| "field_of Max_entries i = max_entries i"
| "field_of Map_type i = map_type i"

definition spec_first_mismatch :: "bpf_map_info \<Rightarrow> bpf_map_info \<Rightarrow> checked_field option" where
  "spec_first_mismatch exp live =
     find (\<lambda>f. field_of f exp \<noteq> 0 \<and> field_of f exp \<noteq> field_of f live) check_order"

fun spec_mismatch_error :: "checked_field \<Rightarrow> u32 \<Rightarrow> u32 \<Rightarrow> diag" where
  "spec_mismatch_error Key_size observed expected = Key_size_mismatch observed expected"
| "spec_mismatch_error Value_size observed expected = Value_size_mismatch observed expected"
| "spec_mismatch_error Max_entries observed expected = Max_entries_mismatch observed expected"
| "spec_mismatch_error Map_type observed expected = Type_mismatch observed expected"

section \<open>Loading and attaching\<close>

text \<open>
  \<^verbatim>\<open>bpf_object__close\<close> releases the object; the programs and maps it owns go with
  it.
\<close>

definition close_obj :: "nat \<Rightarrow> world \<Rightarrow> world" where
  "close_obj obj w = (log_event (Ev_close obj) w)\<lparr>open_objs := remove1 obj (open_objs w)\<rparr>"

text \<open>
  \<^verbatim>\<open>load_bpf_and_trace_attach\<close>. The three \<^verbatim>\<open>goto err\<close> exits are the three calls
  of \<open>close_obj\<close>. The result is the returned object pointer (\<open>None\<close> for NULL) and the
  new world.
\<close>

definition load_bpf_and_trace_attach :: "env \<Rightarrow> config \<Rightarrow> world \<Rightarrow> nat option \<times> world" where
  "load_bpf_and_trace_attach E cfg w =
     (case bpf_object__open_file E (filename cfg) of
        None \<Rightarrow> (None, log_event (Ev_open_file (filename cfg)) w)
      | Some obj \<Rightarrow>
          (let w1 = (log_event (Ev_open_file (filename cfg)) w)\<lparr>open_objs := obj # open_objs w\<rparr>;
               err = bpf_object__load E obj;
               w2 = log_event (Ev_load obj) w1
           in if err \<noteq> 0 then
                (None, close_obj obj (eprint (Loading_failed (filename cfg) err) w2))
              else
                (let w3 = log_event (Ev_next_program obj) w2 in
                 case bpf_object__next_program E obj of
                   None \<Rightarrow> (None, close_obj obj (eprint (No_program (filename cfg) err) w3))
                 | Some prog \<Rightarrow>
                     (let w4 = log_event (Ev_attach_tracepoint prog ''xdp'' ''xdp_exception'') w3 in
                      case bpf_program__attach_tracepoint E prog ''xdp'' ''xdp_exception'' of
                        None \<Rightarrow>
                          (None,
                           close_obj obj
                             (print (''bpf_program__attach_tracepoint failed'' @ [CHR 0x0A]) w4))
                      | Some link \<Rightarrow>
                          (Some obj,
                           w4\<lparr>links := (link, prog, ''xdp'', ''xdp_exception'') # links w4\<rparr>)))))"

text \<open>\<^verbatim>\<open>find_map_fd\<close>\<close>

definition find_map_fd :: "env \<Rightarrow> nat \<Rightarrow> string \<Rightarrow> world \<Rightarrow> int \<times> world" where
  "find_map_fd E bpf_obj mapname w =
     (let w' = log_event (Ev_find_map bpf_obj mapname) w in
      case bpf_object__find_map_by_name E bpf_obj mapname of
        None \<Rightarrow> (- 1, eprint (Cannot_find_map mapname) w')
      | Some m \<Rightarrow> (bpf_map__fd E m, w'))"

section \<open>Scanning and polling\<close>

text \<open>What \<^verbatim>\<open>printf\<close> writes for \<^verbatim>\<open>%llu\<close> and \<^verbatim>\<open>%d\<close>: decimal digits, no grouping.\<close>

fun dec :: "nat \<Rightarrow> string" where
  "dec n = (if n < 10 then [''0123456789'' ! n] else dec (n div 10) @ [''0123456789'' ! (n mod 10)])"

definition fmt_llu :: "u64 \<Rightarrow> string" where
  "fmt_llu x = dec (unat x)"

definition fmt_d :: "u32 \<Rightarrow> string" where
  "fmt_d x = (if sint x < 0 then CHR ''-'' # dec (nat (- sint x)) else dec (nat (sint x)))"

text \<open>\<^verbatim>\<open>%s\<close> of a NULL pointer is written as \<^verbatim>\<open>(null)\<close> by glibc.\<close>

definition fmt_s :: "string option \<Rightarrow> string" where
  "fmt_s p = (case p of None \<Rightarrow> ''(null)'' | Some s \<Rightarrow> s)"

text \<open>
  The two pointers of \<^verbatim>\<open>stats_print\<close>: \<^verbatim>\<open>keyp\<close> is always \<^verbatim>\<open>&key\<close>, and
  \<^verbatim>\<open>prev_keyp\<close> is NULL until it is assigned \<^verbatim>\<open>keyp\<close>, after which both point to
  the same variable \<^verbatim>\<open>key\<close>.
\<close>

datatype keyptr = NULL | Addr_key

definition deref :: "keyptr \<Rightarrow> s32 \<Rightarrow> s32 option" where
  "deref p key = (case p of NULL \<Rightarrow> None | Addr_key \<Rightarrow> Some key)"

text \<open>
  The kernel copies the entry's slots to the start of the buffer \<^verbatim>\<open>values\<close>; the
  buffer keeps its length.
\<close>

definition store_values :: "u64 list \<Rightarrow> u64 list \<Rightarrow> u64 list" where
  "store_values vs values = take (length values) (vs @ drop (length vs) values)"

text \<open>\<^verbatim>\<open>for (i = 0; i < nr_cpus; i++) total += values[i];\<close>, with \<open>tot\<close> for the variable \<^verbatim>\<open>total\<close>.\<close>

function sum_values :: "u64 list \<Rightarrow> nat \<Rightarrow> nat \<Rightarrow> u64 \<Rightarrow> u64" where
  "sum_values values nr_cpus i tot =
     (if i < nr_cpus then sum_values values nr_cpus (i + 1) (tot + values ! i) else tot)"
  by pat_completeness auto
termination
  by (relation "measure (\<lambda>(values, nr_cpus, i, tot). nr_cpus - i)") auto

declare dec.simps [simp del]
declare sum_values.simps [simp del]

text \<open>
  A call either returns (with its value and the world it leaves) or is still running when
  the fuel is used up; \<open>Timeout\<close> carries the world reached so far.
\<close>

datatype 'a outcome = Returned 'a world | Timeout world

text \<open>
  The \<^verbatim>\<open>while (true)\<close> loop of \<^verbatim>\<open>stats_print\<close>; each iteration uses one unit of
  fuel. \<^verbatim>\<open>break\<close> is \<open>Returned\<close>, \<^verbatim>\<open>continue\<close> and the end of the body are the
  recursive calls. The variable \<^verbatim>\<open>err\<close> is written but never read and is left out.
\<close>

fun stats_print_loop ::
  "nat \<Rightarrow> env \<Rightarrow> int \<Rightarrow> nat \<Rightarrow> s32 \<Rightarrow> keyptr \<Rightarrow> u64 list \<Rightarrow> world \<Rightarrow> unit outcome" where
  "stats_print_loop 0 E map_fd nr_cpus key prev_keyp values w = Timeout w"
| "stats_print_loop (Suc n) E map_fd nr_cpus key prev_keyp values w =
     (case bpf_map_get_next_key E (now w) map_fd (deref prev_keyp key) of
        Inl errno \<Rightarrow> Returned () (log_event (Ev_get_next_key map_fd (deref prev_keyp key)) w)
      | Inr key' \<Rightarrow>
          (let w1 = log_event (Ev_get_next_key map_fd (deref prev_keyp key)) w in
           case bpf_map_lookup_elem E (now w1) map_fd key' of
             None \<Rightarrow>
               stats_print_loop n E map_fd nr_cpus key' prev_keyp values
                 (eprint (Lookup_elem_failed key')
                    (log_event (Ev_lookup_elem map_fd key' (length values)) w1))
           | Some vs \<Rightarrow>
               (let w2 = log_event (Ev_lookup_elem map_fd key' (length values)) w1;
                    values' = store_values vs values;
                    tot = sum_values values' nr_cpus 0 0
                in stats_print_loop n E map_fd nr_cpus key' Addr_key values'
                     (print (fmt_s (if_indextoname E key') @ '' ('' @ fmt_llu tot @ '') '') w2))))"

text \<open>
  \<^verbatim>\<open>stats_print\<close>. The answer of \<^verbatim>\<open>libbpf_num_possible_cpus\<close> is converted to
  \<^verbatim>\<open>unsigned int\<close> as the C does. A negative answer is the error code of libbpf; as an
  unsigned count it is at least \<open>2 ^ 31\<close>, and the real process is killed when it sets up
  a buffer of that many slots on its stack. The definition goes on with the buffer
  instead, so the calls the real program makes are an initial part of the trace defined
  here. What is said below about the program going on after the query (C8) is said for
  answers that are not negative.
\<close>

definition stats_print :: "nat \<Rightarrow> env \<Rightarrow> int \<Rightarrow> world \<Rightarrow> unit outcome" where
  "stats_print fuel E map_fd w =
     (let cpus = libbpf_num_possible_cpus E (now w);
          nr_cpus = unat cpus;
          values = map (uninit_values E) [0..<nr_cpus]
      in case stats_print_loop fuel E map_fd nr_cpus (uninit_key E) NULL values
                (log_event (Ev_num_possible_cpus cpus) w) of
           Timeout w' \<Rightarrow> Timeout w'
         | Returned u w' \<Rightarrow> Returned () (print [CHR 0x0A] w'))"

text \<open>\<^verbatim>\<open>sleep(interval)\<close>\<close>

definition sleep :: "int \<Rightarrow> world \<Rightarrow> world" where
  "sleep interval w = log_event (Ev_sleep interval) w"

text \<open>The \<^verbatim>\<open>while (1)\<close> loop of \<^verbatim>\<open>stats_poll\<close>; each cycle uses one unit of fuel.\<close>

fun stats_poll_loop :: "nat \<Rightarrow> env \<Rightarrow> int \<Rightarrow> int \<Rightarrow> world \<Rightarrow> unit outcome" where
  "stats_poll_loop 0 E map_fd interval w = Timeout w"
| "stats_poll_loop (Suc n) E map_fd interval w =
     (case stats_print n E map_fd w of
        Timeout w' \<Rightarrow> Timeout w'
      | Returned u w' \<Rightarrow> stats_poll_loop n E map_fd interval (sleep interval w'))"

text \<open>\<^verbatim>\<open>stats_poll\<close>; the parameter \<^verbatim>\<open>map_type\<close> is not used by the C either.\<close>

definition stats_poll :: "nat \<Rightarrow> env \<Rightarrow> int \<Rightarrow> u32 \<Rightarrow> int \<Rightarrow> world \<Rightarrow> unit outcome" where
  "stats_poll fuel E map_fd mtype interval w =
     stats_poll_loop fuel E map_fd interval (log_event Ev_setlocale w)"

section \<open>The program\<close>

text \<open>
  \<^verbatim>\<open>main\<close> after \<^verbatim>\<open>parse_cmdline_args\<close>: it is given the configuration the parser
  has filled and the global \<^verbatim>\<open>verbose\<close>.
\<close>

definition main :: "nat \<Rightarrow> env \<Rightarrow> bool \<Rightarrow> config \<Rightarrow> world \<Rightarrow> int outcome" where
  "main fuel E verbose cfg w =
     (case load_bpf_and_trace_attach E cfg w of
        (None, w1) \<Rightarrow> Returned EXIT_FAIL_BPF w1
      | (Some bpf_obj, w1) \<Rightarrow>
          (let w2 = (if verbose
                     then print (''Success: Loaded BPF-object('' @ filename cfg @ '')'' @ [CHR 0x0A]) w1
                     else w1)
           in case find_map_fd E bpf_obj ''xdp_stats_map'' w2 of
                (stats_map_fd, w3) \<Rightarrow>
                  if stats_map_fd < 0 then Returned EXIT_FAIL_BPF w3
                  else
                    (let map_expect = zero_info\<lparr>key_size := 4, value_size := 8\<rparr> in
                     case check_map_fd_info E stats_map_fd zero_info map_expect w3 of
                       (err, info, w4) \<Rightarrow>
                         if err \<noteq> 0 then Returned err (eprint Map_not_compatible w4)
                         else
                           (let w5 = (if verbose
                                      then print
                                        ([CHR 0x0A] @ ''Collecting stats from BPF map'' @ [CHR 0x0A] @
                                         '' - BPF map (bpf_map_type:'' @ fmt_d (map_type info) @
                                         '') id:'' @ fmt_d (map_id info) @
                                         '' name:'' @ map_name info @
                                         '' key_size:'' @ fmt_d (key_size info) @
                                         '' value_size:'' @ fmt_d (value_size info) @
                                         '' max_entries:'' @ fmt_d (max_entries info) @ [CHR 0x0A]) w4
                                      else w4)
                            in case stats_poll fuel E stats_map_fd (map_type info) 2 w5 of
                                 Timeout w' \<Rightarrow> Timeout w'
                               | Returned u w' \<Rightarrow> Returned EXIT_OK w'))))"

section \<open>A kernel table to run the program on\<close>

text \<open>
  A table that does not change during the run, as the list of its entries in the order
  the kernel enumerates them. The key after the last one, and the first key of an empty
  table, are reported as \<^verbatim>\<open>ENOENT\<close>; a cursor that is not in the table restarts the
  enumeration, as the kernel's hash tables do.
\<close>

fun key_after :: "s32 \<Rightarrow> s32 list \<Rightarrow> s32 option" where
  "key_after k [] = None"
| "key_after k [x] = None"
| "key_after k (x # y # ys) = (if x = k then Some y else key_after k (y # ys))"

definition table_next_key :: "(s32 \<times> u64 list) list \<Rightarrow> s32 option \<Rightarrow> int + s32" where
  "table_next_key tbl prev =
     (case (if prev = None \<or> the prev \<notin> set (map fst tbl) then
              (case tbl of [] \<Rightarrow> None | e # es \<Rightarrow> Some (fst e))
            else key_after (the prev) (map fst tbl)) of
        None \<Rightarrow> Inl ENOENT
      | Some k \<Rightarrow> Inr k)"

text \<open>
  An environment in which every step of loading succeeds, the table named
  \<^verbatim>\<open>xdp_stats_map\<close> has descriptor 3 and the expected shape, the machine has \<open>cpus\<close>
  possible CPUs, and the read of key \<open>k\<close> at time \<open>t\<close> fails when \<open>fails t k\<close>.
\<close>

definition table_env ::
  "(s32 \<times> u64 list) list \<Rightarrow> (nat \<Rightarrow> s32 \<Rightarrow> bool) \<Rightarrow> nat \<Rightarrow> (s32 \<Rightarrow> string option) \<Rightarrow> env" where
  "table_env tbl fails cpus names =
     \<lparr>bpf_object__open_file = (\<lambda>f. Some 1),
      bpf_object__load = (\<lambda>obj. 0),
      bpf_object__next_program = (\<lambda>obj. Some 1),
      bpf_program__attach_tracepoint = (\<lambda>prog category name. Some 1),
      bpf_object__find_map_by_name = (\<lambda>obj name. if name = ''xdp_stats_map'' then Some 1 else None),
      bpf_map__fd = (\<lambda>m. 3),
      bpf_obj_get_info_by_fd =
        (\<lambda>fd. Inr \<lparr>map_type = 5, map_id = 1, key_size = 4, value_size = 8, max_entries = 10,
                   map_name = ''xdp_stats_map''\<rparr>),
      libbpf_num_possible_cpus = (\<lambda>t. of_nat cpus),
      bpf_map_get_next_key = (\<lambda>t fd prev. table_next_key tbl prev),
      bpf_map_lookup_elem = (\<lambda>t fd k. if fails t k then None else map_of tbl k),
      if_indextoname = names,
      uninit_key = 0,
      uninit_values = (\<lambda>i. 0)\<rparr>"

definition ifnames :: "s32 \<Rightarrow> string option" where
  "ifnames k = (if k = 1 then Some ''lo'' else if k = 2 then Some ''eth0'' else None)"

section \<open>Observing a run\<close>

text \<open>The world a call has reached, whether it returned or not.\<close>

definition final :: "'a outcome \<Rightarrow> world" where
  "final r = (case r of Returned v w \<Rightarrow> w | Timeout w \<Rightarrow> w)"



text \<open>
  The trace of a scan that asks for the first key \<open>n\<close> times and fails to read it each
  time.
\<close>

definition retry_events :: "int \<Rightarrow> s32 \<Rightarrow> nat \<Rightarrow> nat \<Rightarrow> event list" where
  "retry_events map_fd k len n =
     concat (replicate n [Ev_get_next_key map_fd None, Ev_lookup_elem map_fd k len])"





text \<open>The calls that only \<^verbatim>\<open>stats_poll\<close> and \<^verbatim>\<open>stats_print\<close> make.\<close>

fun is_poll_event :: "event \<Rightarrow> bool" where
  "is_poll_event Ev_setlocale = True"
| "is_poll_event (Ev_num_possible_cpus c) = True"
| "is_poll_event (Ev_get_next_key fd p) = True"
| "is_poll_event (Ev_lookup_elem fd k len) = True"
| "is_poll_event (Ev_sleep i) = True"
| "is_poll_event e = False"

text \<open>
  The fatal errors of the specification, and which of them, if any, the environment
  makes the program meet first: the steps are taken in the order open, load, select the
  program, attach, resolve the table, validate its shape against key size 4 and value
  size 8. A table whose descriptor is negative counts as not found; \<open>TableInfoError\<close> is
  the kernel refusing to report the table's metadata, which the specification does not
  name.
\<close>

datatype fatal_error =
    LoadOpenError | VerifierRejectError | ProgramNotFoundError | AttachError
  | TableNotFoundError | TableInfoError | SchemaMismatchError

definition first_fatal :: "env \<Rightarrow> config \<Rightarrow> fatal_error option" where
  "first_fatal E cfg =
     (case bpf_object__open_file E (filename cfg) of
        None \<Rightarrow> Some LoadOpenError
      | Some obj \<Rightarrow>
          if bpf_object__load E obj \<noteq> 0 then Some VerifierRejectError
          else
            (case bpf_object__next_program E obj of
               None \<Rightarrow> Some ProgramNotFoundError
             | Some prog \<Rightarrow>
                 (case bpf_program__attach_tracepoint E prog ''xdp'' ''xdp_exception'' of
                    None \<Rightarrow> Some AttachError
                  | Some link \<Rightarrow>
                      (case bpf_object__find_map_by_name E obj ''xdp_stats_map'' of
                         None \<Rightarrow> Some TableNotFoundError
                       | Some m \<Rightarrow>
                           if bpf_map__fd E m < 0 then Some TableNotFoundError
                           else
                             (case bpf_obj_get_info_by_fd E (bpf_map__fd E m) of
                                Inl errno \<Rightarrow> Some TableInfoError
                              | Inr live \<Rightarrow>
                                  if key_size live = 4 \<and> value_size live = 8 then None
                                  else Some SchemaMismatchError)))))"

text \<open>
  The rendering of a total that the specification asks for, under the \<^verbatim>\<open>en_US\<close>
  locale that \<^verbatim>\<open>stats_poll\<close> selects: decimal digits in groups of three, the groups
  separated by commas.
\<close>

fun spec_grouped :: "nat \<Rightarrow> string" where
  "spec_grouped n =
     (if n < 1000 then dec n
      else spec_grouped (n div 1000) @ '','' @
           [''0123456789'' ! (n mod 1000 div 100), ''0123456789'' ! (n mod 100 div 10),
            ''0123456789'' ! (n mod 10)])"

declare spec_grouped.simps [simp del]

text \<open>
  What a scan of a table whose reads succeed is expected to leave: for each entry the
  text of its pair, and the calls made, the cursor of each request being the key read
  before it.
\<close>

definition pair_text :: "(s32 \<Rightarrow> string option) \<Rightarrow> s32 \<times> u64 list \<Rightarrow> string" where
  "pair_text names e = fmt_s (names (fst e)) @ '' ('' @ fmt_llu (sum_list (snd e)) @ '') ''"

fun scan_calls :: "int \<Rightarrow> nat \<Rightarrow> s32 option \<Rightarrow> s32 list \<Rightarrow> event list" where
  "scan_calls map_fd len prev [] = [Ev_get_next_key map_fd prev]"
| "scan_calls map_fd len prev (k # ks) =
     Ev_get_next_key map_fd prev # Ev_lookup_elem map_fd k len # scan_calls map_fd len (Some k) ks"

text \<open>The calls that produce an attachment or a table descriptor.\<close>

fun is_handle_event :: "event \<Rightarrow> bool" where
  "is_handle_event (Ev_attach_tracepoint prog category name) = True"
| "is_handle_event (Ev_find_map obj name) = True"
| "is_handle_event (Ev_get_info fd) = True"
| "is_handle_event e = False"

section \<open>The schema validator: first mismatch and wildcards\<close>

text \<open>
  C1. Once the descriptor is valid and the kernel has reported the live metadata,
  \<^verbatim>\<open>__check_map_fd_info\<close> does what the specification's validator does: it looks at
  key size, value size, max entries and type in this order, a field is in error when its
  expectation is non-zero and differs from the live value, and the call fails with
  \<^verbatim>\<open>EXIT_FAIL\<close> and exactly one message, the one of the first field in error, which
  carries the observed and the expected value. With no field in error it returns 0 and
  writes nothing.
\<close>

theorem check_map_fd_info_first_mismatch:
  assumes "0 \<le> map_fd" and "bpf_obj_get_info_by_fd E map_fd = Inr live"
  shows "check_map_fd_info E map_fd info exp w =
     (case spec_first_mismatch exp live of
        None \<Rightarrow> (0, live, log_event (Ev_get_info map_fd) w)
      | Some f \<Rightarrow>
          (EXIT_FAIL, live,
           eprint (spec_mismatch_error f (field_of f live) (field_of f exp))
             (log_event (Ev_get_info map_fd) w)))"
  using assms
  by (simp add: check_map_fd_info_def spec_first_mismatch_def check_order_def Let_def)

text \<open>
  Value size and max entries are both wrong here; only the value size, which is checked
  first, is reported.
\<close>

theorem check_map_fd_info_first_mismatch_witness:
  "(0::int) \<le> 3 \<and>
   bpf_obj_get_info_by_fd (table_env [] (\<lambda>t k. False) 2 ifnames) 3 =
     Inr \<lparr>map_type = 5, map_id = 1, key_size = 4, value_size = 8, max_entries = 10,
          map_name = ''xdp_stats_map''\<rparr> \<and>
   check_map_fd_info (table_env [] (\<lambda>t k. False) 2 ifnames) 3 zero_info
     (zero_info\<lparr>key_size := 4, value_size := 16, max_entries := 99\<rparr>) world0 =
     (EXIT_FAIL,
      \<lparr>map_type = 5, map_id = 1, key_size = 4, value_size = 8, max_entries = 10,
        map_name = ''xdp_stats_map''\<rparr>,
      world0\<lparr>stderr := [Value_size_mismatch 8 16], events := [Ev_get_info 3]\<rparr>)"
  using check_map_fd_info_first_mismatch
    [of 3 "table_env [] (\<lambda>t k. False) 2 ifnames"
        "\<lparr>map_type = 5, map_id = 1, key_size = 4, value_size = 8, max_entries = 10,
          map_name = ''xdp_stats_map''\<rparr>"
        zero_info "zero_info\<lparr>key_size := 4, value_size := 16, max_entries := 99\<rparr>" world0]
  by (simp add: table_env_def zero_info_def spec_first_mismatch_def check_order_def
      eprint_def log_event_def world0_def)

text \<open>
  C5. When the four checked fields of the expectation are zero, the validator accepts
  whatever metadata the kernel reports for a valid descriptor: it returns 0 and writes no
  message.
\<close>

theorem check_map_fd_info_wildcard:
  assumes "0 \<le> map_fd" and "bpf_obj_get_info_by_fd E map_fd = Inr live"
    and "key_size exp = 0" and "value_size exp = 0"
    and "max_entries exp = 0" and "map_type exp = 0"
  shows "check_map_fd_info E map_fd info exp w = (0, live, log_event (Ev_get_info map_fd) w)"
  using assms by (simp add: check_map_fd_info_def)

theorem check_map_fd_info_wildcard_witness:
  "(0::int) \<le> 7 \<and>
   bpf_obj_get_info_by_fd (table_env [] (\<lambda>t k. False) 2 ifnames) 7 =
     Inr \<lparr>map_type = 5, map_id = 1, key_size = 4, value_size = 8, max_entries = 10,
          map_name = ''xdp_stats_map''\<rparr> \<and>
   key_size zero_info = 0 \<and> value_size zero_info = 0 \<and>
   max_entries zero_info = 0 \<and> map_type zero_info = 0 \<and>
   check_map_fd_info (table_env [] (\<lambda>t k. False) 2 ifnames) 7 zero_info zero_info world0 =
     (0,
      \<lparr>map_type = 5, map_id = 1, key_size = 4, value_size = 8, max_entries = 10,
        map_name = ''xdp_stats_map''\<rparr>,
      world0\<lparr>events := [Ev_get_info 7]\<rparr>)"
  using check_map_fd_info_wildcard
    [of 7 "table_env [] (\<lambda>t k. False) 2 ifnames"
        "\<lparr>map_type = 5, map_id = 1, key_size = 4, value_size = 8, max_entries = 10,
          map_name = ''xdp_stats_map''\<rparr>"
        zero_info zero_info world0]
  by (simp add: table_env_def zero_info_def log_event_def world0_def)

section \<open>The per-CPU sum\<close>

lemma sum_values_drop:
  "i \<le> length values \<Longrightarrow>
   sum_values values (length values) i tot = tot + sum_list (drop i values)"
proof (induction "length values - i" arbitrary: i tot)
  case 0
  then show ?case by (simp add: sum_values.simps)
next
  case (Suc d)
  then have lt: "i < length values" by simp
  have "sum_values values (length values) i tot =
        sum_values values (length values) (i + 1) (tot + values ! i)"
    using lt by (subst sum_values.simps) simp
  also have "\<dots> = (tot + values ! i) + sum_list (drop (i + 1) values)"
    using Suc.hyps(1) [of "i + 1" "tot + values ! i"] Suc.hyps(2) lt by simp
  also have "\<dots> = tot + sum_list (drop i values)"
    using lt by (simp add: Cons_nth_drop_Suc [symmetric] add.assoc)
  finally show ?case .
qed

lemma unat_sum_list:
  "unat (sum_list (vs :: u64 list)) = sum_list (map unat vs) mod 2 ^ 64"
proof (induction vs)
  case Nil
  show ?case by simp
next
  case (Cons v vs)
  have "unat (v + sum_list vs) = (unat v + unat (sum_list vs)) mod 2 ^ 64"
    by (simp add: unat_word_ariths)
  also have "\<dots> = (unat v + sum_list (map unat vs) mod 2 ^ 64) mod 2 ^ 64"
    by (simp only: Cons.IH)
  also have "\<dots> = (unat v + sum_list (map unat vs)) mod 2 ^ 64"
    by (rule mod_add_right_eq)
  finally show ?case by simp
qed

lemma store_values_same_length:
  "length vs = length values \<Longrightarrow> store_values vs values = vs"
  by (simp add: store_values_def)

text \<open>
  C4. For an entry read with as many slots as the buffer has (the CPU count), the total
  computed by the loop of \<^verbatim>\<open>stats_print\<close> is the sum of the slots as a 64-bit word,
  that is, their arithmetic sum modulo \<open>2 ^ 64\<close>. Nothing is assumed about the slots or
  about their number, so zero slots and a single slot are covered.
\<close>

theorem aggregate_total:
  assumes "length vs = nr_cpus" and "length values = nr_cpus"
  shows "sum_values (store_values vs values) nr_cpus 0 0 = sum_list vs \<and>
         unat (sum_values (store_values vs values) nr_cpus 0 0) =
           sum_list (map unat vs) mod 2 ^ 64"
proof -
  have s: "store_values vs values = vs"
    using assms by (simp add: store_values_same_length)
  have "sum_values vs (length vs) 0 0 = sum_list vs"
    using sum_values_drop [of 0 vs 0] by simp
  then have t: "sum_values (store_values vs values) nr_cpus 0 0 = sum_list vs"
    using s assms(1) by simp
  show ?thesis
    using t unat_sum_list [of vs] by simp
qed

text \<open>Three slots whose sum passes \<open>2 ^ 64\<close>: the total wraps to 1 and is not capped.\<close>

theorem aggregate_total_witness:
  "length [0xFFFFFFFFFFFFFFFF, 2, 0 :: u64] = 3 \<and> length [7, 7, 7 :: u64] = 3 \<and>
   sum_values (store_values [0xFFFFFFFFFFFFFFFF, 2, 0] [7, 7, 7]) 3 0 0 = 1 \<and>
   unat (sum_values (store_values [0xFFFFFFFFFFFFFFFF, 2, 0] [7, 7, 7]) 3 0 0) =
     (18446744073709551615 + 2 + 0) mod 2 ^ 64"
  using aggregate_total [of "[0xFFFFFFFFFFFFFFFF, 2, 0]" 3 "[7, 7, 7]"]
  by simp

text \<open>
  One iteration whose read succeeds with one slot per CPU: the pair is written with the
  sum of the slots as its total, and \<^verbatim>\<open>prev_keyp\<close> now points to \<^verbatim>\<open>key\<close>.
\<close>

lemma stats_print_loop_successful_read:
  assumes "bpf_map_get_next_key E (now w) map_fd (deref p key) = Inr k"
    and "bpf_map_lookup_elem E (Suc (now w)) map_fd k = Some vs"
    and "length vs = nr_cpus" and "length values = nr_cpus"
  shows "stats_print_loop (Suc n) E map_fd nr_cpus key p values w =
         stats_print_loop n E map_fd nr_cpus k Addr_key vs
           (print (fmt_s (if_indextoname E k) @ '' ('' @ fmt_llu (sum_list vs) @ '') '')
              (log_event (Ev_lookup_elem map_fd k nr_cpus)
                 (log_event (Ev_get_next_key map_fd (deref p key)) w)))"
proof -
  have s: "store_values vs values = vs"
    using assms(3,4) by (simp add: store_values_same_length)
  have t: "sum_values vs nr_cpus 0 0 = sum_list vs"
    using sum_values_drop [of 0 vs 0] assms(3) by simp
  show ?thesis
    using assms s t by (simp add: Let_def now_def log_event_def)
qed

section \<open>Loading and attaching: all or nothing\<close>

text \<open>
  C3. \<^verbatim>\<open>load_bpf_and_trace_attach\<close> has two kinds of result. When it returns NULL,
  the set of open objects and the set of links are what they were before the call; if the
  object had been opened, the last thing the function did was to close it (this is the
  exit of a failed kernel load, of an object without a program and of a failed attach),
  and if it had not, the function did nothing but try to open it. When it returns an
  object, that object was opened and loaded, its first program was attached to the
  tracepoint \<^verbatim>\<open>xdp:xdp_exception\<close>, the link is held, and the object was not closed.
\<close>

theorem load_bpf_and_trace_attach_all_or_nothing:
  "(case load_bpf_and_trace_attach E cfg w of
      (None, w') \<Rightarrow>
        open_objs w' = open_objs w \<and> links w' = links w \<and>
        (case bpf_object__open_file E (filename cfg) of
           None \<Rightarrow> events w' = events w @ [Ev_open_file (filename cfg)]
         | Some obj \<Rightarrow> last (events w') = Ev_close obj)
    | (Some obj, w') \<Rightarrow>
        bpf_object__open_file E (filename cfg) = Some obj \<and>
        bpf_object__load E obj = 0 \<and>
        open_objs w' = obj # open_objs w \<and>
        (\<exists>prog link.
           bpf_object__next_program E obj = Some prog \<and>
           bpf_program__attach_tracepoint E prog ''xdp'' ''xdp_exception'' = Some link \<and>
           links w' = (link, prog, ''xdp'', ''xdp_exception'') # links w \<and>
           events w' =
             events w @
             [Ev_open_file (filename cfg), Ev_load obj, Ev_next_program obj,
              Ev_attach_tracepoint prog ''xdp'' ''xdp_exception'']))"
  by (simp add: load_bpf_and_trace_attach_def Let_def close_obj_def log_event_def eprint_def
      print_def split: option.splits)

text \<open>The attach fails: the object that was opened and loaded is closed again.\<close>

lemma load_attach_failure_example:
  "load_bpf_and_trace_attach
     ((table_env [] (\<lambda>t k. False) 2 ifnames)
        \<lparr>bpf_program__attach_tracepoint := (\<lambda>prog category name. None)\<rparr>)
     \<lparr>filename = ''trace_prog_kern.o''\<rparr> world0 =
   (None,
    world0\<lparr>stdout := ''bpf_program__attach_tracepoint failed'' @ [CHR 0x0A],
           events := [Ev_open_file ''trace_prog_kern.o'', Ev_load 1, Ev_next_program 1,
                      Ev_attach_tracepoint 1 ''xdp'' ''xdp_exception'', Ev_close 1]\<rparr>)"
  by code_simp

section \<open>What a scan adds to the world\<close>








section \<open>The CPU count of a cycle\<close>









text \<open>
  A machine whose CPU count goes from 2 to 4 while the program sleeps: the reads of the
  second and third cycle use four slots.
\<close>

lemma stats_poll_cpu_count_changes_example:
  "events (final (stats_poll 4
      ((table_env [(1, [10, 20])] (\<lambda>t k. False) 2 ifnames)
         \<lparr>libbpf_num_possible_cpus := (\<lambda>t. if t < 5 then 2 else 4)\<rparr>) 3 5 2 world0)) =
   [Ev_setlocale, Ev_num_possible_cpus 2, Ev_get_next_key 3 None, Ev_lookup_elem 3 1 2,
    Ev_get_next_key 3 (Some 1), Ev_sleep 2,
    Ev_num_possible_cpus 4, Ev_get_next_key 3 None, Ev_lookup_elem 3 1 4,
    Ev_get_next_key 3 (Some 1), Ev_sleep 2,
    Ev_num_possible_cpus 4, Ev_get_next_key 3 None, Ev_lookup_elem 3 1 4]"
  by code_simp

section \<open>The polling loop\<close>

lemma stats_poll_loop_never_returns:
  "\<exists>w'. stats_poll_loop fuel E map_fd interval w = Timeout w'"
proof (induction fuel arbitrary: w)
  case 0
  show ?case by simp
next
  case (Suc n)
  show ?case
  proof (cases "stats_print n E map_fd w")
    case (Timeout w')
    then show ?thesis by simp
  next
    case (Returned u w')
    then show ?thesis using Suc.IH [of "sleep interval w'"] by simp
  qed
qed







section \<open>Fatal errors before polling\<close>

text \<open>
  C7, as the code has it. When the environment makes one of the steps before polling
  fail, \<^verbatim>\<open>main\<close> returns, whatever the fuel, and no call of the polling loop has been
  made. The exit code is a failure code, not one code per kind of error: it is
  \<^verbatim>\<open>EXIT_FAIL\<close> when the table has the wrong shape and \<^verbatim>\<open>EXIT_FAIL_BPF\<close> for every
  other error, and both differ from \<^verbatim>\<open>EXIT_OK\<close>. When the step that fails is the
  opening of the artifact or its load into the kernel, no attachment was tried, no table
  was looked for, and no object or link is held at the exit.
\<close>

theorem main_fatal_error_exits:
  assumes "first_fatal E cfg = Some e"
  shows "\<exists>w'. main fuel E verbose cfg w =
              Returned (if e = SchemaMismatchError then EXIT_FAIL else EXIT_FAIL_BPF) w' \<and>
           EXIT_FAIL \<noteq> EXIT_OK \<and> EXIT_FAIL_BPF \<noteq> EXIT_OK \<and>
           \<not> list_ex is_poll_event (drop (now w) (events w')) \<and>
           (e = LoadOpenError \<or> e = VerifierRejectError \<longrightarrow>
              links w' = links w \<and> open_objs w' = open_objs w \<and>
              \<not> list_ex is_handle_event (drop (now w) (events w')))"
  using assms
  by (auto simp add: first_fatal_def main_def load_bpf_and_trace_attach_def find_map_fd_def
      check_map_fd_info_def Let_def close_obj_def log_event_def eprint_def print_def now_def
      zero_info_def EXIT_OK_def EXIT_FAIL_def EXIT_FAIL_BPF_def
      split: option.splits sum.splits if_splits)

theorem main_fatal_error_exits_witness:
  "first_fatal ((table_env [] (\<lambda>t k. False) 2 ifnames)\<lparr>bpf_object__open_file := (\<lambda>f. None)\<rparr>)
     \<lparr>filename = ''trace_prog_kern.o''\<rparr> = Some LoadOpenError \<and>
   (\<exists>w'. main 5 ((table_env [] (\<lambda>t k. False) 2 ifnames)\<lparr>bpf_object__open_file := (\<lambda>f. None)\<rparr>)
            True \<lparr>filename = ''trace_prog_kern.o''\<rparr> world0 = Returned EXIT_FAIL_BPF w' \<and>
      EXIT_FAIL_BPF \<noteq> EXIT_OK \<and>
      \<not> list_ex is_poll_event (events w') \<and> \<not> list_ex is_handle_event (events w') \<and>
      links w' = [] \<and> open_objs w' = [])"
proof -
  let ?E = "(table_env [] (\<lambda>t k. False) 2 ifnames)\<lparr>bpf_object__open_file := (\<lambda>f. None)\<rparr>"
  have f: "first_fatal ?E \<lparr>filename = ''trace_prog_kern.o''\<rparr> = Some LoadOpenError"
    by (simp add: first_fatal_def table_env_def)
  show ?thesis
    using f main_fatal_error_exits [OF f, of 5 True world0]
    by (auto simp add: world0_def now_def)
qed

text \<open>
  The claim as the specification words it gives every fatal error an exit code category
  of its own. An artifact that cannot be opened and an object without the table
  \<^verbatim>\<open>xdp_stats_map\<close> are two different errors, and the process ends with the same code
  \<^verbatim>\<open>EXIT_FAIL_BPF\<close> in both.
\<close>

theorem main_exit_code_shared:
  "first_fatal ((table_env [] (\<lambda>t k. False) 2 ifnames)\<lparr>bpf_object__open_file := (\<lambda>f. None)\<rparr>)
     \<lparr>filename = ''trace_prog_kern.o''\<rparr> = Some LoadOpenError \<and>
   first_fatal
     ((table_env [] (\<lambda>t k. False) 2 ifnames)\<lparr>bpf_object__find_map_by_name := (\<lambda>obj name. None)\<rparr>)
     \<lparr>filename = ''trace_prog_kern.o''\<rparr> = Some TableNotFoundError \<and>
   main 5 ((table_env [] (\<lambda>t k. False) 2 ifnames)\<lparr>bpf_object__open_file := (\<lambda>f. None)\<rparr>)
     False \<lparr>filename = ''trace_prog_kern.o''\<rparr> world0 =
     Returned EXIT_FAIL_BPF (world0\<lparr>events := [Ev_open_file ''trace_prog_kern.o'']\<rparr>) \<and>
   main 5
     ((table_env [] (\<lambda>t k. False) 2 ifnames)\<lparr>bpf_object__find_map_by_name := (\<lambda>obj name. None)\<rparr>)
     False \<lparr>filename = ''trace_prog_kern.o''\<rparr> world0 =
     Returned EXIT_FAIL_BPF
       (world0\<lparr>stderr := [Cannot_find_map ''xdp_stats_map''],
               events := [Ev_open_file ''trace_prog_kern.o'', Ev_load 1, Ev_next_program 1,
                          Ev_attach_tracepoint 1 ''xdp'' ''xdp_exception'',
                          Ev_find_map 1 ''xdp_stats_map''],
               open_objs := [1], links := [(1, 1, ''xdp'', ''xdp_exception'')]\<rparr>)"
  by code_simp

text \<open>The kernel refuses the program: the object is closed and nothing is attached.\<close>

lemma main_load_rejected_example:
  "main 5 ((table_env [] (\<lambda>t k. False) 2 ifnames)\<lparr>bpf_object__load := (\<lambda>obj. - 13)\<rparr>)
     False \<lparr>filename = ''trace_prog_kern.o''\<rparr> world0 =
   Returned EXIT_FAIL_BPF
     (world0\<lparr>stderr := [Loading_failed ''trace_prog_kern.o'' (- 13)],
             events := [Ev_open_file ''trace_prog_kern.o'', Ev_load 1, Ev_close 1]\<rparr>)"
  by code_simp

text \<open>A table whose slots are four bytes wide is refused with the generic failure code.\<close>

lemma main_schema_mismatch_example:
  "main 5 ((table_env [] (\<lambda>t k. False) 2 ifnames)
             \<lparr>bpf_obj_get_info_by_fd := (\<lambda>fd. Inr (zero_info\<lparr>key_size := 4, value_size := 4\<rparr>))\<rparr>)
     False \<lparr>filename = ''trace_prog_kern.o''\<rparr> world0 =
   Returned EXIT_FAIL
     (world0\<lparr>stderr := [Value_size_mismatch 4 8, Map_not_compatible],
             events := [Ev_open_file ''trace_prog_kern.o'', Ev_load 1, Ev_next_program 1,
                        Ev_attach_tracepoint 1 ''xdp'' ''xdp_exception'',
                        Ev_find_map 1 ''xdp_stats_map'', Ev_get_info 3],
             open_objs := [1], links := [(1, 1, ''xdp'', ''xdp_exception'')]\<rparr>)"
  by code_simp

text \<open>With no fatal error the program reaches the polling loop and stays in it.\<close>

lemma stats_poll_never_returns:
  "\<exists>w'. stats_poll fuel E map_fd mtype interval w = Timeout w'"
  using stats_poll_loop_never_returns [of fuel E map_fd interval "log_event Ev_setlocale w"]
  by (simp add: stats_poll_def)

lemma main_polls_when_no_fatal_error:
  assumes "first_fatal E cfg = None"
  shows "\<exists>w'. main fuel E verbose cfg w = Timeout w'"
proof -
  have t: "\<And>fd mtype w5. (case stats_poll fuel E fd mtype 2 w5 of
            Timeout w' \<Rightarrow> Timeout w' | Returned u w' \<Rightarrow> Returned EXIT_OK w') =
         Timeout (final (stats_poll fuel E fd mtype 2 w5))"
  proof -
    fix fd mtype w5
    obtain w' where "stats_poll fuel E fd mtype 2 w5 = Timeout w'"
      using stats_poll_never_returns by blast
    then show "(case stats_poll fuel E fd mtype 2 w5 of
            Timeout w' \<Rightarrow> Timeout w' | Returned u w' \<Rightarrow> Returned EXIT_OK w') =
         Timeout (final (stats_poll fuel E fd mtype 2 w5))"
      by (simp add: final_def)
  qed
  show ?thesis
    using assms
    by (auto simp add: first_fatal_def main_def load_bpf_and_trace_attach_def find_map_fd_def
        check_map_fd_info_def Let_def zero_info_def t
        split: option.splits sum.splits if_splits)
qed

section \<open>A scan of a table whose reads succeed\<close>

lemma key_after_distinct:
  "distinct (ks @ k # ks') \<Longrightarrow>
   key_after k (ks @ k # ks') = (case ks' of [] \<Rightarrow> None | y # ys \<Rightarrow> Some y)"
proof (induction ks)
  case Nil
  show ?case by (cases ks') simp_all
next
  case (Cons a ks)
  then have ne: "a \<noteq> k" by auto
  have "key_after k (a # ks @ k # ks') = key_after k (ks @ k # ks')"
    using ne by (cases ks) simp_all
  then show ?case using Cons by simp
qed

lemma table_next_key_first:
  "table_next_key (e # rest) None = Inr (fst e)"
  by (simp add: table_next_key_def)

lemma table_next_key_empty:
  "table_next_key [] None = Inl ENOENT"
  by (simp add: table_next_key_def)

lemma table_next_key_after:
  assumes "distinct (map fst (pre @ e # rest))"
  shows "table_next_key (pre @ e # rest) (Some (fst e)) =
           (case rest of [] \<Rightarrow> Inl ENOENT | y # ys \<Rightarrow> Inr (fst y))"
proof -
  have "key_after (fst e) (map fst pre @ fst e # map fst rest) =
          (case map fst rest of [] \<Rightarrow> None | y # ys \<Rightarrow> Some y)"
    using assms key_after_distinct [of "map fst pre" "fst e" "map fst rest"] by simp
  then show ?thesis
    by (cases rest) (simp_all add: table_next_key_def)
qed

lemma map_of_distinct_mid:
  assumes "distinct (map fst (pre @ e # rest))"
  shows "map_of (pre @ e # rest) (fst e) = Some (snd e)"
proof -
  have "fst e \<notin> fst ` set pre" using assms by auto
  then have "map_of pre (fst e) = None" by (simp add: map_of_eq_None_iff)
  then show ?thesis by (simp add: map_add_def)
qed


lemma table_next_key_cursor:
  assumes "distinct (map fst (pre @ rest))"
  shows "table_next_key (pre @ rest) (if pre = [] then None else Some (fst (last pre))) =
           (case rest of [] \<Rightarrow> Inl ENOENT | y # ys \<Rightarrow> Inr (fst y))"
proof (cases "pre = []")
  case True
  then show ?thesis
    by (cases rest) (simp_all add: table_next_key_first table_next_key_empty)
next
  case False
  then have p: "pre = butlast pre @ [last pre]" by simp
  have "distinct (map fst (butlast pre @ last pre # rest))"
    using assms p by (metis append.assoc append_Cons append_Nil)
  then have "table_next_key (butlast pre @ last pre # rest) (Some (fst (last pre))) =
           (case rest of [] \<Rightarrow> Inl ENOENT | y # ys \<Rightarrow> Inr (fst y))"
    by (rule table_next_key_after)
  moreover have "butlast pre @ last pre # rest = pre @ rest"
    using p by (metis append.assoc append_Cons append_Nil)
  ultimately show ?thesis using False by simp
qed

lemma stats_print_loop_table:
  assumes "distinct (map fst (pre @ rest))"
    and "list_all (\<lambda>e. length (snd e) = cpus) rest"
    and "deref p key = (if pre = [] then None else Some (fst (last pre)))"
    and "length rest < fuel"
    and "length values = cpus"
  shows "stats_print_loop fuel (table_env (pre @ rest) (\<lambda>t k. False) cpus names) map_fd cpus
           key p values w =
         Returned ()
           (w\<lparr>stdout := stdout w @ concat (map (pair_text names) rest),
              events := events w @ scan_calls map_fd cpus (deref p key) (map fst rest)\<rparr>)"
  using assms
proof (induction rest arbitrary: pre key p "values" w fuel)
  case Nil
  then obtain n where n: "fuel = Suc n" by (cases fuel) auto
  have "table_next_key pre (deref p key) = Inl ENOENT"
    using table_next_key_cursor [of pre "[]"] Nil.prems(1,3) by simp
  then show ?case
    using n by (simp add: table_env_def log_event_def)
next
  case (Cons e rest)
  then obtain n where n: "fuel = Suc n" "length rest < n" by (cases fuel) auto
  let ?E = "table_env (pre @ e # rest) (\<lambda>t k. False) cpus names"
  have nk: "table_next_key (pre @ e # rest) (deref p key) = Inr (fst e)"
    using table_next_key_cursor [of pre "e # rest"] Cons.prems(1,3) by simp
  have lk: "map_of (pre @ e # rest) (fst e) = Some (snd e)"
    using Cons.prems(1) by (rule map_of_distinct_mid)
  have le: "length (snd e) = cpus" using Cons.prems(2) by simp
  have st: "store_values (snd e) values = snd e"
    using le Cons.prems(5) by (simp add: store_values_same_length)
  have su: "sum_values (snd e) cpus 0 0 = sum_list (snd e)"
    using sum_values_drop [of 0 "snd e" 0] le by simp
  let ?w3 = "print (pair_text names e)
               (log_event (Ev_lookup_elem map_fd (fst e) cpus)
                  (log_event (Ev_get_next_key map_fd (deref p key)) w))"
  have step: "stats_print_loop fuel ?E map_fd cpus key p values w =
              stats_print_loop n ?E map_fd cpus (fst e) Addr_key (snd e) ?w3"
    using n(1) nk lk st su Cons.prems(5)
    by (simp add: table_env_def Let_def pair_text_def)
  have d': "distinct (map fst ((pre @ [e]) @ rest))" using Cons.prems(1) by simp
  have l': "list_all (\<lambda>e. length (snd e) = cpus) rest" using Cons.prems(2) by simp
  have c': "deref Addr_key (fst e) =
            (if pre @ [e] = [] then None else Some (fst (last (pre @ [e]))))"
    by (simp add: deref_def)
  have "stats_print_loop n (table_env ((pre @ [e]) @ rest) (\<lambda>t k. False) cpus names) map_fd cpus
          (fst e) Addr_key (snd e) ?w3 =
        Returned ()
          (?w3\<lparr>stdout := stdout ?w3 @ concat (map (pair_text names) rest),
                events := events ?w3 @
                  scan_calls map_fd cpus (deref Addr_key (fst e)) (map fst rest)\<rparr>)"
    by (rule Cons.IH [OF d' l' c' n(2) le])
  then show ?case
    using step by (simp add: print_def log_event_def deref_def)
qed

text \<open>
  A table with distinct keys, every entry with one slot per CPU, no read failing: a scan
  with more fuel than the table has entries returns. It has asked for the CPU count,
  enumerated the keys in the table's order, read each once, and written one line: the
  pair of each entry followed by a space, then the newline. The totals are written by
  \<open>fmt_llu\<close>, in plain decimal digits.
\<close>

lemma stats_print_table:
  assumes "distinct (map fst tbl)"
    and "list_all (\<lambda>e. length (snd e) = cpus) tbl"
    and "cpus < 2 ^ 32"
    and "length tbl < fuel"
  shows "stats_print fuel (table_env tbl (\<lambda>t k. False) cpus names) map_fd w =
         Returned ()
           (w\<lparr>stdout := stdout w @ concat (map (pair_text names) tbl) @ [CHR 0x0A],
              events := events w @ Ev_num_possible_cpus (of_nat cpus) #
                scan_calls map_fd cpus None (map fst tbl)\<rparr>)"
proof -
  let ?E = "table_env tbl (\<lambda>t k. False) cpus names"
  have c: "libbpf_num_possible_cpus ?E (now w) = of_nat cpus"
    by (simp add: table_env_def)
  have u: "unat (of_nat cpus :: s32) = cpus"
    using assms(3) by (simp add: unat_of_nat)
  let ?w0 = "log_event (Ev_num_possible_cpus (of_nat cpus)) w"
  have "stats_print_loop fuel (table_env ([] @ tbl) (\<lambda>t k. False) cpus names) map_fd cpus
          (uninit_key ?E) NULL (map (uninit_values ?E) [0..<cpus]) ?w0 =
        Returned ()
          (?w0\<lparr>stdout := stdout ?w0 @ concat (map (pair_text names) tbl),
                events := events ?w0 @ scan_calls map_fd cpus (deref NULL (uninit_key ?E))
                  (map fst tbl)\<rparr>)"
    by (rule stats_print_loop_table) (use assms in \<open>simp_all add: deref_def\<close>)
  then show ?thesis
    using c u by (simp add: stats_print_def Let_def print_def log_event_def deref_def)
qed

text \<open>Scenario B of the specification: totals 30 and 10, in the table's order.\<close>

lemma stats_print_scenario_B:
  "stats_print 3 (table_env [(1, [10, 20]), (2, [5, 5])] (\<lambda>t k. False) 2 ifnames) 3 world0 =
     Returned ()
       (world0\<lparr>stdout := ''lo (30) eth0 (10) '' @ [CHR 0x0A],
               events := [Ev_num_possible_cpus 2, Ev_get_next_key 3 None, Ev_lookup_elem 3 1 2,
                          Ev_get_next_key 3 (Some 1), Ev_lookup_elem 3 2 2,
                          Ev_get_next_key 3 (Some 2)]\<rparr>)"
  by code_simp

section \<open>A first key that cannot be read\<close>

text \<open>
  One iteration whose read fails. The pointer \<^verbatim>\<open>prev_keyp\<close> is not touched, so the
  cursor of the next request is NULL again if it was NULL, and is the key that has just
  failed if \<^verbatim>\<open>prev_keyp\<close> already points to \<^verbatim>\<open>key\<close>.
\<close>

lemma stats_print_loop_failed_read:
  assumes "bpf_map_get_next_key E (now w) map_fd (deref p key) = Inr k"
    and "bpf_map_lookup_elem E (Suc (now w)) map_fd k = None"
  shows "stats_print_loop (Suc n) E map_fd nr_cpus key p values w =
         stats_print_loop n E map_fd nr_cpus k p values
           (eprint (Lookup_elem_failed k)
              (log_event (Ev_lookup_elem map_fd k (length values))
                 (log_event (Ev_get_next_key map_fd (deref p key)) w)))"
  using assms by (simp add: Let_def now_def log_event_def)

lemma stats_print_loop_first_key_never_read:
  assumes nk: "\<forall>t. bpf_map_get_next_key E t map_fd None = Inr k1"
    and lk: "\<forall>t. bpf_map_lookup_elem E t map_fd k1 = None"
  shows "stats_print_loop fuel E map_fd nr_cpus key NULL values w =
           Timeout (w\<lparr>stderr := stderr w @ replicate fuel (Lookup_elem_failed k1),
                      events := events w @ retry_events map_fd k1 (length values) fuel\<rparr>)"
proof (induction fuel arbitrary: key w)
  case 0
  show ?case by (simp add: retry_events_def)
next
  case (Suc n)
  show ?case
    using nk lk
    by (simp add: Suc.IH deref_def Let_def log_event_def eprint_def retry_events_def
        replicate_append_same)
qed

lemma set_retry_events:
  "set (retry_events map_fd k len n) \<subseteq> {Ev_get_next_key map_fd None, Ev_lookup_elem map_fd k len}"
  by (induction n) (auto simp add: retry_events_def)

text \<open>
  C10. Suppose the table's first key is \<open>k1\<close> whenever the enumeration starts from the
  beginning, and every read of \<open>k1\<close> fails. Then \<^verbatim>\<open>prev_keyp\<close> never leaves NULL:
  each request for the next key is made with the NULL cursor and yields \<open>k1\<close> again,
  nothing but \<open>k1\<close> is ever read, each failure is logged, nothing is printed, and the
  scan has not returned after any number of iterations. So a scan returns only if some
  read of the first key succeeds.
\<close>

theorem stats_print_first_key_restart:
  assumes nk: "\<forall>t. bpf_map_get_next_key E t map_fd None = Inr k1"
    and lk: "\<forall>t. bpf_map_lookup_elem E t map_fd k1 = None"
  shows "\<forall>fuel. \<exists>w'. stats_print fuel E map_fd w = Timeout w' \<and>
           stdout w' = stdout w \<and>
           stderr w' = stderr w @ replicate fuel (Lookup_elem_failed k1) \<and>
           events w' = events w @ Ev_num_possible_cpus (libbpf_num_possible_cpus E (now w)) #
             retry_events map_fd k1 (unat (libbpf_num_possible_cpus E (now w))) fuel"
  by (simp add: stats_print_def Let_def stats_print_loop_first_key_never_read [OF nk lk]
      log_event_def)

theorem stats_print_first_key_restart_witness:
  "(\<forall>t. bpf_map_get_next_key (table_env [(7, [1, 2])] (\<lambda>t k. True) 2 ifnames) t 3 None = Inr 7) \<and>
   (\<forall>t. bpf_map_lookup_elem (table_env [(7, [1, 2])] (\<lambda>t k. True) 2 ifnames) t 3 7 = None) \<and>
   (\<forall>fuel. \<exists>w'. stats_print fuel (table_env [(7, [1, 2])] (\<lambda>t k. True) 2 ifnames) 3 world0 =
        Timeout w' \<and>
      stdout w' = [] \<and>
      stderr w' = replicate fuel (Lookup_elem_failed 7) \<and>
      events w' = Ev_num_possible_cpus 2 # retry_events 3 7 2 fuel)"
proof -
  let ?E = "table_env [(7, [1, 2])] (\<lambda>t k. True) 2 ifnames"
  have nk: "\<forall>t. bpf_map_get_next_key ?E t 3 None = Inr 7"
    by (simp add: table_env_def table_next_key_def)
  have lk: "\<forall>t. bpf_map_lookup_elem ?E t 3 7 = None"
    by (simp add: table_env_def)
  have c: "libbpf_num_possible_cpus ?E (now world0) = 2"
    by (simp add: table_env_def)
  show ?thesis
    using nk lk c stats_print_first_key_restart [OF nk lk, of world0]
    by (simp add: world0_def)
qed

section \<open>The cycles of the polling loop\<close>






section \<open>A read that fails during a scan\<close>

text \<open>
  A failure on a key that is not the first: the scan logs it and goes on with the key
  after it. Here the read of key 2 always fails, and keys 1 and 3 are reported.
\<close>

lemma stats_print_later_key_failure_example:
  "stats_print 4 (table_env [(1, [10, 20]), (2, [5, 5]), (3, [1, 1])] (\<lambda>t k. k = 2) 2 ifnames) 3
     world0 =
     Returned ()
       (world0\<lparr>stdout := ''lo (30) (null) (2) '' @ [CHR 0x0A],
               stderr := [Lookup_elem_failed 2],
               events := [Ev_num_possible_cpus 2, Ev_get_next_key 3 None, Ev_lookup_elem 3 1 2,
                          Ev_get_next_key 3 (Some 1), Ev_lookup_elem 3 2 2,
                          Ev_get_next_key 3 (Some 2), Ev_lookup_elem 3 3 2,
                          Ev_get_next_key 3 (Some 3)]\<rparr>)"
  by code_simp

text \<open>
  C2. The code does not treat the first key of a scan this way. In a table with the keys
  1 and 2 in which every read of key 1 fails, the scan never asks for the key after 1,
  never reads key 2, prints nothing and has not returned after any number of iterations.
  When only the first read of key 1 fails, the scan does not skip to key 2 either: it
  starts the enumeration again and reads key 1 a second time.
\<close>

theorem stats_print_first_key_failure_not_skipped:
  "(\<forall>fuel. \<exists>w'.
      stats_print fuel (table_env [(1, [10, 20]), (2, [5, 5])] (\<lambda>t k. k = 1) 2 ifnames) 3 world0 =
        Timeout w' \<and>
      stdout w' = [] \<and>
      Ev_get_next_key 3 (Some 1) \<notin> set (events w') \<and>
      (\<forall>len. Ev_lookup_elem 3 2 len \<notin> set (events w'))) \<and>
   stats_print 4 (table_env [(1, [10, 20]), (2, [5, 5])] (\<lambda>t k. t = 2) 2 ifnames) 3 world0 =
     Returned ()
       (world0\<lparr>stdout := ''lo (30) eth0 (10) '' @ [CHR 0x0A],
               stderr := [Lookup_elem_failed 1],
               events := [Ev_num_possible_cpus 2, Ev_get_next_key 3 None, Ev_lookup_elem 3 1 2,
                          Ev_get_next_key 3 None, Ev_lookup_elem 3 1 2,
                          Ev_get_next_key 3 (Some 1), Ev_lookup_elem 3 2 2,
                          Ev_get_next_key 3 (Some 2)]\<rparr>)"
proof (intro conjI allI)
  fix fuel
  let ?E = "table_env [(1, [10, 20]), (2, [5, 5])] (\<lambda>t k. k = 1) 2 ifnames"
  have nk: "\<forall>t. bpf_map_get_next_key ?E t 3 None = Inr 1"
    by (simp add: table_env_def table_next_key_def)
  have lk: "\<forall>t. bpf_map_lookup_elem ?E t 3 1 = None"
    by (simp add: table_env_def)
  have c: "libbpf_num_possible_cpus ?E (now world0) = 2"
    by (simp add: table_env_def)
  have "stats_print fuel ?E 3 world0 =
      Timeout (world0\<lparr>stderr := replicate fuel (Lookup_elem_failed 1),
                       events := Ev_num_possible_cpus 2 # retry_events 3 1 2 fuel\<rparr>)"
    using c
    by (simp add: stats_print_def Let_def stats_print_loop_first_key_never_read [OF nk lk]
        log_event_def world0_def)
  moreover have "Ev_get_next_key 3 (Some 1) \<notin> set (retry_events 3 1 2 fuel)"
    using set_retry_events [of 3 1 2 fuel] by auto
  moreover have "\<forall>len. Ev_lookup_elem 3 2 len \<notin> set (retry_events 3 1 2 fuel)"
    using set_retry_events [of 3 1 2 fuel] by auto
  ultimately show "\<exists>w'. stats_print fuel ?E 3 world0 = Timeout w' \<and>
      stdout w' = [] \<and>
      Ev_get_next_key 3 (Some 1) \<notin> set (events w') \<and>
      (\<forall>len. Ev_lookup_elem 3 2 len \<notin> set (events w'))"
    by (simp add: world0_def)
next
  show "stats_print 4 (table_env [(1, [10, 20]), (2, [5, 5])] (\<lambda>t k. t = 2) 2 ifnames) 3 world0 =
     Returned ()
       (world0\<lparr>stdout := ''lo (30) eth0 (10) '' @ [CHR 0x0A],
               stderr := [Lookup_elem_failed 1],
               events := [Ev_num_possible_cpus 2, Ev_get_next_key 3 None, Ev_lookup_elem 3 1 2,
                          Ev_get_next_key 3 None, Ev_lookup_elem 3 1 2,
                          Ev_get_next_key 3 (Some 1), Ev_lookup_elem 3 2 2,
                          Ev_get_next_key 3 (Some 2)]\<rparr>)"
    by code_simp
qed

section \<open>The format of a total\<close>

text \<open>
  C6. A table with the single key 2 whose two slots hold 1000 and 234: the scan writes
  one line, \<^verbatim>\<open>eth0 (1234) \<close> and a newline. The total is written without grouping,
  where the rendering the specification asks for is \<^verbatim>\<open>1,234\<close>.
\<close>

theorem stats_print_total_not_grouped:
  "stats_print 2 (table_env [(2, [1000, 234])] (\<lambda>t k. False) 2 ifnames) 3 world0 =
     Returned ()
       (world0\<lparr>stdout := ''eth0 (1234) '' @ [CHR 0x0A],
               events := [Ev_num_possible_cpus 2, Ev_get_next_key 3 None, Ev_lookup_elem 3 2 2,
                          Ev_get_next_key 3 (Some 2)]\<rparr>) \<and>
   spec_grouped (unat (sum_list [1000, 234 :: u64])) = ''1,234''"
  by code_simp

end
